theory Spec2Isabelle
  imports Main "HOL-Library.Word"
begin

section \<open>Values and messages\<close>

text \<open>
  The server of \<^verbatim>\<open>vosk_ws.py\<close> receives WebSocket messages, feeds the binary ones to a
  Vosk recognizer and answers an empty binary message with one JSON event. The model
  below follows the source function by function. Calls of \<^verbatim>\<open>print\<close> and of
  \<^verbatim>\<open>traceback.print_exc\<close> only log and are left out.
\<close>

text \<open>A \<^verbatim>\<open>bytes\<close> object.\<close>

type_synonym bytes = "8 word list"

text \<open>
  What the WebSocket iterator yields: a binary message (\<^verbatim>\<open>bytes\<close>) or a text message
  (\<^verbatim>\<open>str\<close>).
\<close>

datatype message = Binary bytes | Text string

text \<open>
  The tracking variables \<^verbatim>\<open>partial\<close> and \<^verbatim>\<open>final\<close> hold \<^verbatim>\<open>None\<close> or a \<^verbatim>\<open>str\<close>; so do
  the values of the JSON objects that Vosk returns (\<^verbatim>\<open>null\<close> is decoded to \<^verbatim>\<open>None\<close>).
\<close>

type_synonym py_value = "string option"

text \<open>A decoded JSON object, in key order.\<close>

type_synonym py_dict = "(string \<times> py_value) list"

text \<open>An exception of class \<^verbatim>\<open>Exception\<close>, with its message.\<close>

datatype exn = Exception string

text \<open>Python's truth test on such a value: \<^verbatim>\<open>None\<close> and the empty string are false.\<close>

definition truthy :: "py_value \<Rightarrow> bool" where
  "truthy v = (case v of None \<Rightarrow> False | Some s \<Rightarrow> s \<noteq> [])"

text \<open>\<^verbatim>\<open>len(message)\<close>.\<close>

definition len :: "message \<Rightarrow> nat" where
  "len m = (case m of Binary b \<Rightarrow> length b | Text t \<Rightarrow> length t)"

text \<open>\<^verbatim>\<open>d.get(key, default)\<close>.\<close>

definition dict_get :: "py_dict \<Rightarrow> string \<Rightarrow> py_value \<Rightarrow> py_value" where
  "dict_get d k dflt = (case map_of d k of None \<Rightarrow> dflt | Some v \<Rightarrow> v)"

section \<open>Serialisation of an event\<close>

text \<open>
  \<^verbatim>\<open>json.dumps\<close> with its default arguments (\<^verbatim>\<open>ensure_ascii=True\<close>, separators
  \<^verbatim>\<open>", "\<close> and \<^verbatim>\<open>": "\<close>) on a dictionary whose values are \<^verbatim>\<open>None\<close> or strings. A character
  is escaped when it is the backslash, the double quote or outside the printable ASCII
  range; backspace, form feed, newline, carriage return and tab have short escapes, the
  others are written \<^verbatim>\<open>\u00xx\<close> in lower-case hexadecimal.
\<close>

definition hex_digit :: "nat \<Rightarrow> char" where
  "hex_digit n = ''0123456789abcdef'' ! (n mod 16)"

definition escape_char :: "char \<Rightarrow> string" where
  "escape_char c =
     (if c = CHR 0x5C then [CHR 0x5C, CHR 0x5C]
      else if c = CHR 0x22 then [CHR 0x5C, CHR 0x22]
      else if c = CHR 0x08 then [CHR 0x5C, CHR ''b'']
      else if c = CHR 0x0C then [CHR 0x5C, CHR ''f'']
      else if c = CHR 0x0A then [CHR 0x5C, CHR ''n'']
      else if c = CHR 0x0D then [CHR 0x5C, CHR ''r'']
      else if c = CHR 0x09 then [CHR 0x5C, CHR ''t'']
      else if (of_char c :: nat) < 0x20 \<or> 0x7E < (of_char c :: nat)
        then [CHR 0x5C, CHR ''u'', CHR ''0'', CHR ''0'',
              hex_digit ((of_char c :: nat) div 16), hex_digit (of_char c)]
      else [c])"

definition encode_string :: "string \<Rightarrow> string" where
  "encode_string s = [CHR 0x22] @ concat (map escape_char s) @ [CHR 0x22]"

definition encode_value :: "py_value \<Rightarrow> string" where
  "encode_value v = (case v of None \<Rightarrow> ''null'' | Some s \<Rightarrow> encode_string s)"

fun join :: "string \<Rightarrow> string list \<Rightarrow> string" where
  "join sep [] = []"
| "join sep [x] = x"
| "join sep (x # y # ys) = x @ sep @ join sep (y # ys)"

definition json_dumps :: "py_dict \<Rightarrow> string" where
  "json_dumps d =
     ''{'' @ join '', '' (map (\<lambda>(k, v). encode_string k @ '': '' @ encode_value v) d) @ ''}''"

section \<open>The collaborators\<close>

text \<open>
  The WebSocket connection and the Kaldi recognizer are objects of other libraries. Each
  is a state of an arbitrary type together with its operations; an operation returns the
  object's next state and either its result or the exception it raised.
  \<^item> \<open>send\<close> is \<^verbatim>\<open>await websocket.send(text)\<close>;
  \<^item> \<open>accept_waveform\<close> is \<^verbatim>\<open>rec.AcceptWaveform(message)\<close>;
  \<^item> \<open>result\<close> is \<^verbatim>\<open>json.loads(rec.Result())\<close>, and \<open>partial_result\<close> is
    \<^verbatim>\<open>json.loads(rec.PartialResult())\<close>: the decoded object, or the exception that either
    call raised.
\<close>

record ('w, 'r) collaborators =
  send :: "'w \<Rightarrow> string \<Rightarrow> 'w \<times> (exn + unit)"
  accept_waveform :: "'r \<Rightarrow> message \<Rightarrow> 'r \<times> (exn + bool)"
  result :: "'r \<Rightarrow> 'r \<times> (exn + py_dict)"
  partial_result :: "'r \<Rightarrow> 'r \<times> (exn + py_dict)"

section \<open>The functions of the server\<close>

text \<open>\<^verbatim>\<open>validate_message\<close>: \<^verbatim>\<open>isinstance(message, bytes)\<close>.\<close>

definition validate_message :: "message \<Rightarrow> bool" where
  "validate_message m = (case m of Binary b \<Rightarrow> True | Text t \<Rightarrow> False)"

text \<open>
  \<^verbatim>\<open>handle_end_of_stream\<close>: three branches on the truth values of \<^verbatim>\<open>final\<close> and
  \<^verbatim>\<open>partial\<close>, each with one \<^verbatim>\<open>send\<close>. The result is the connection after the call and
  the exception of \<^verbatim>\<open>send\<close>, if it raised one.
\<close>

definition handle_end_of_stream ::
  "('w, 'r) collaborators \<Rightarrow> 'w \<Rightarrow> 'r \<Rightarrow> py_value \<Rightarrow> py_value \<Rightarrow> 'w \<times> (exn + unit)" where
  "handle_end_of_stream io ws r partial final =
     (if truthy final then send io ws (json_dumps [(''text'', final)])
      else if truthy partial then send io ws (json_dumps [(''text'', partial)])
      else send io ws (json_dumps [(''text'', Some '''')]))"

text \<open>
  \<^verbatim>\<open>process_audio_chunk\<close>: the result is the connection and the recognizer after the call,
  and either the pair \<^verbatim>\<open>(partial, final)\<close> that the function returns or the exception that
  left it.
\<close>

definition process_audio_chunk ::
  "('w, 'r) collaborators \<Rightarrow> 'w \<Rightarrow> 'r \<Rightarrow> message \<Rightarrow> py_value \<Rightarrow> py_value
     \<Rightarrow> ('w \<times> 'r) \<times> (exn + py_value \<times> py_value)" where
  "process_audio_chunk io ws r message partial final =
     (if len message = 0 then
        (case handle_end_of_stream io ws r partial final of
           (ws', Inl e) \<Rightarrow> ((ws', r), Inl e)
         | (ws', Inr u) \<Rightarrow> ((ws', r), Inr (None, None)))
      else
        (case accept_waveform io r message of
           (r', Inl e) \<Rightarrow> ((ws, r'), Inl e)
         | (r', Inr True) \<Rightarrow>
             (case result io r' of
                (r'', Inl e) \<Rightarrow> ((ws, r''), Inl e)
              | (r'', Inr result_json) \<Rightarrow>
                  (let result_text = dict_get result_json ''text'' (Some '''')
                   in ((ws, r''),
                       Inr (partial, if truthy result_text then result_text else final))))
         | (r', Inr False) \<Rightarrow>
             (case partial_result io r' of
                (r'', Inl e) \<Rightarrow> ((ws, r''), Inl e)
              | (r'', Inr partial_json) \<Rightarrow>
                  (let partial_text = dict_get partial_json ''partial'' (Some '''')
                   in ((ws, r''),
                       Inr (if truthy partial_text then partial_text else partial, final))))))"

text \<open>
  The variables of \<^verbatim>\<open>main_message_loop\<close>: the two objects it was given and the two
  tracking variables.
\<close>

record ('w, 'r) session =
  websocket :: 'w
  rec :: 'r
  partial :: py_value
  final :: py_value

text \<open>
  One turn of the \<^verbatim>\<open>async for\<close> loop, with its \<^verbatim>\<open>try\<close>: \<^verbatim>\<open>continue\<close> on a message that
  does not validate; the assignment to \<^verbatim>\<open>partial, final\<close> when
  \<^verbatim>\<open>process_audio_chunk\<close> returns; nothing assigned when it raises, the handler only logs.
\<close>

definition loop_body ::
  "('w, 'r) collaborators \<Rightarrow> ('w, 'r) session \<Rightarrow> message \<Rightarrow> ('w, 'r) session" where
  "loop_body io s message =
     (if \<not> validate_message message then s
      else
        (case process_audio_chunk io (websocket s) (rec s) message (partial s) (final s) of
           ((ws', r'), Inr (p, f)) \<Rightarrow>
             \<lparr>websocket = ws', rec = r', partial = p, final = f\<rparr>
         | ((ws', r'), Inl e) \<Rightarrow>
             s\<lparr>websocket := ws', rec := r'\<rparr>))"

text \<open>The loop over the messages that arrive until the connection ends.\<close>

fun message_loop ::
  "('w, 'r) collaborators \<Rightarrow> ('w, 'r) session \<Rightarrow> message list \<Rightarrow> ('w, 'r) session" where
  "message_loop io s [] = s"
| "message_loop io s (message # messages) = message_loop io (loop_body io s message) messages"

text \<open>
  \<^verbatim>\<open>main_message_loop\<close>: both tracking variables start as \<^verbatim>\<open>None\<close>. The source returns
  nothing; the model returns the variables as the loop leaves them.
\<close>

definition main_message_loop ::
  "('w, 'r) collaborators \<Rightarrow> 'w \<Rightarrow> 'r \<Rightarrow> message list \<Rightarrow> ('w, 'r) session" where
  "main_message_loop io ws r messages =
     message_loop io \<lparr>websocket = ws, rec = r, partial = None, final = None\<rparr> messages"

section \<open>Stand-ins for the collaborators\<close>

text \<open>
  A connection that records what it delivered: its state is the list of the texts sent
  so far, and \<open>refuses\<close> tells, from that list and the text, whether \<^verbatim>\<open>send\<close> raises.
\<close>

definition recording_send ::
  "(string list \<Rightarrow> string \<Rightarrow> bool) \<Rightarrow> string list \<Rightarrow> string \<Rightarrow> string list \<times> (exn + unit)" where
  "recording_send refuses sent text =
     (if refuses sent text then (sent, Inl (Exception ''ConnectionClosed''))
      else (sent @ [text], Inr ()))"

text \<open>
  A scripted recognizer: its state is the list of the answers it still has to give, one
  for each chunk.
\<close>

datatype answer = Boundary py_dict | Interim py_dict | Failure exn

definition scripted_accept_waveform ::
  "answer list \<Rightarrow> message \<Rightarrow> answer list \<times> (exn + bool)" where
  "scripted_accept_waveform script m =
     (case script of
        [] \<Rightarrow> ([], Inr False)
      | Boundary d # rest \<Rightarrow> (script, Inr True)
      | Interim d # rest \<Rightarrow> (script, Inr False)
      | Failure e # rest \<Rightarrow> (rest, Inl e))"

definition scripted_result :: "answer list \<Rightarrow> answer list \<times> (exn + py_dict)" where
  "scripted_result script =
     (case script of
        Boundary d # rest \<Rightarrow> (rest, Inr d)
      | _ \<Rightarrow> (script, Inr [(''text'', Some '''')]))"

definition scripted_partial_result :: "answer list \<Rightarrow> answer list \<times> (exn + py_dict)" where
  "scripted_partial_result script =
     (case script of
        Interim d # rest \<Rightarrow> (rest, Inr d)
      | _ \<Rightarrow> (script, Inr [(''partial'', Some '''')]))"

definition scripted ::
  "(string list \<Rightarrow> string \<Rightarrow> bool) \<Rightarrow> (string list, answer list) collaborators" where
  "scripted refuses =
     \<lparr>send = recording_send refuses,
      accept_waveform = scripted_accept_waveform,
      result = scripted_result,
      partial_result = scripted_partial_result\<rparr>"

definition refuses_nothing :: "string list \<Rightarrow> string \<Rightarrow> bool" where
  "refuses_nothing sent text = False"

definition refuses_all :: "string list \<Rightarrow> string \<Rightarrow> bool" where
  "refuses_all sent text = True"

section \<open>The specification's wording\<close>

text \<open>
  The text of the flush event as the specification words it: \<^verbatim>\<open>lastFinal\<close> if it is set,
  else \<^verbatim>\<open>lastPartial\<close> if it is set, else the empty string, where set means not
  \<^verbatim>\<open>None\<close>. It is compared below with what \<open>handle_end_of_stream\<close> sends.
\<close>

definition flush_text_spec :: "py_value \<Rightarrow> py_value \<Rightarrow> string" where
  "flush_text_spec lastPartial lastFinal =
     (case lastFinal of
        Some t \<Rightarrow> t
      | None \<Rightarrow> (case lastPartial of Some t \<Rightarrow> t | None \<Rightarrow> ''''))"

text \<open>The serialised event with the text \<open>t\<close>.\<close>

definition text_event :: "string \<Rightarrow> string" where
  "text_event t = json_dumps [(''text'', Some t)]"

section \<open>Serialised events\<close>

lemma dumps_text:
  \<open>json_dumps [(''text'', Some t)] = ''{"text": '' @ encode_string t @ ''}''\<close>
  by (simp add: json_dumps_def encode_string_def encode_value_def escape_char_def)

lemma dumps_empty_text: \<open>json_dumps [(''text'', Some '''')] = ''{"text": ""}''\<close>
  by (simp add: dumps_text encode_string_def)

lemma dumps_hel: \<open>json_dumps [(''text'', Some ''hel'')] = ''{"text": "hel"}''\<close>
  by (simp add: dumps_text encode_string_def escape_char_def)

lemma dumps_hello_world:
  \<open>json_dumps [(''text'', Some ''hello world'')] = ''{"text": "hello world"}''\<close>
  by (simp add: dumps_text encode_string_def escape_char_def)

section \<open>Messages that are not bytes\<close>

lemma loop_body_text: "loop_body io s (Text t) = s"
  by (simp add: loop_body_def validate_message_def)

text \<open>
  C5: an inbound message that is not a byte sequence is discarded without a call of
  \<^verbatim>\<open>process_audio_chunk\<close>: the loop's variables after it are those before it (nothing sent,
  the recognizer not fed, \<^verbatim>\<open>partial\<close> and \<^verbatim>\<open>final\<close> as they were), and the loop goes on with
  the messages that follow.
\<close>

theorem non_bytes_discarded:
  "\<not> validate_message (Text t) \<and>
   loop_body io s (Text t) = s \<and>
   message_loop io s (Text t # messages) = message_loop io s messages"
  by (simp add: loop_body_def validate_message_def)

section \<open>The end-of-stream flush\<close>

lemma process_end_of_stream:
  "process_audio_chunk io ws r (Binary []) p f =
     (case handle_end_of_stream io ws r p f of
        (ws', Inl e) \<Rightarrow> ((ws', r), Inl e)
      | (ws', Inr u) \<Rightarrow> ((ws', r), Inr (None, None)))"
  by (simp add: process_audio_chunk_def len_def)

lemma end_of_stream_text:
  "f \<noteq> Some [] \<Longrightarrow>
   handle_end_of_stream io ws r p f =
     send io ws (json_dumps [(''text'', Some (flush_text_spec p f))])"
  by (auto simp: handle_end_of_stream_def truthy_def flush_text_spec_def split: option.splits)

lemma end_of_stream_one_send:
  "\<exists>t. handle_end_of_stream io ws r p f = send io ws (json_dumps [(''text'', Some t)])"
  by (cases p; cases f) (auto simp: handle_end_of_stream_def truthy_def)

lemma scripted_flush_hel:
  \<open>process_audio_chunk (scripted refuses_nothing) [] [] (Binary []) (Some ''hel'') None
     = (([''{"text": "hel"}''], []), Inr (None, None))\<close>
  by (simp add: process_end_of_stream handle_end_of_stream_def truthy_def scripted_def
      recording_send_def refuses_nothing_def dumps_hel)

text \<open>
  The loop never stores the empty string in \<^verbatim>\<open>final\<close>: in every state it reaches, a
  \<^verbatim>\<open>final\<close> that is set is true in Python's test.
\<close>

lemma chunk_final_not_empty:
  "f \<noteq> Some [] \<Longrightarrow>
   process_audio_chunk io ws r message p f = (env, Inr (p', f')) \<Longrightarrow> f' \<noteq> Some []"
  by (auto simp: process_audio_chunk_def truthy_def Let_def
           split: if_splits prod.splits sum.splits bool.splits option.splits)

lemma loop_body_final_not_empty:
  "final s \<noteq> Some [] \<Longrightarrow> final (loop_body io s message) \<noteq> Some []"
  by (auto simp: loop_body_def split: prod.splits sum.splits dest: chunk_final_not_empty)

lemma message_loop_final_not_empty:
  "final s \<noteq> Some [] \<Longrightarrow> final (message_loop io s messages) \<noteq> Some []"
  by (induction messages arbitrary: s) (simp_all add: loop_body_final_not_empty)

lemma message_loop_append:
  "message_loop io s (messages @ later) = message_loop io (message_loop io s messages) later"
  by (induction messages arbitrary: s) simp_all

lemma loop_body_end_of_stream_websocket:
  "websocket (loop_body io s (Binary [])) =
     fst (handle_end_of_stream io (websocket s) (rec s) (partial s) (final s))"
  by (auto simp: loop_body_def validate_message_def process_end_of_stream
      split: prod.splits sum.splits)

lemma scripted_scenario:
  "main_message_loop (scripted refuses_nothing) []
     [Interim [(''partial'', Some ''hello'')], Boundary [(''text'', Some ''hello world'')]]
     [Binary [1], Binary [2]]
   = \<lparr>websocket = [], rec = [], partial = Some ''hello'', final = Some ''hello world''\<rparr>"
  by (simp add: main_message_loop_def loop_body_def validate_message_def
      process_audio_chunk_def len_def scripted_def scripted_accept_waveform_def
      scripted_result_def scripted_partial_result_def dict_get_def truthy_def)

text \<open>
  C1: in the session state that \<^verbatim>\<open>main_message_loop\<close> has reached after any sequence of
  messages, whatever the recognizer answered and the connection did, the zero-length
  frame makes \<^verbatim>\<open>process_audio_chunk\<close> call \<^verbatim>\<open>send\<close> exactly once, with the event whose text
  is \<^verbatim>\<open>final\<close> if it is set, else \<^verbatim>\<open>partial\<close> if it is set, else the empty string; and the
  connection after the loop has taken that frame is the one this single \<^verbatim>\<open>send\<close> leaves.
\<close>

theorem flush_fallback_order:
  "process_audio_chunk io
       (websocket (main_message_loop io ws r messages))
       (rec (main_message_loop io ws r messages)) (Binary [])
       (partial (main_message_loop io ws r messages))
       (final (main_message_loop io ws r messages)) =
     (case send io (websocket (main_message_loop io ws r messages))
             (json_dumps [(''text'', Some (flush_text_spec
                (partial (main_message_loop io ws r messages))
                (final (main_message_loop io ws r messages))))]) of
        (ws', Inl e) \<Rightarrow> ((ws', rec (main_message_loop io ws r messages)), Inl e)
      | (ws', Inr u) \<Rightarrow> ((ws', rec (main_message_loop io ws r messages)), Inr (None, None))) \<and>
   websocket (main_message_loop io ws r (messages @ [Binary []])) =
     fst (send io (websocket (main_message_loop io ws r messages))
            (json_dumps [(''text'', Some (flush_text_spec
                (partial (main_message_loop io ws r messages))
                (final (main_message_loop io ws r messages))))]))"
proof -
  let ?s = "main_message_loop io ws r messages"
  have ne: "final ?s \<noteq> Some []"
    by (simp add: main_message_loop_def message_loop_final_not_empty)
  have eos: "handle_end_of_stream io (websocket ?s) (rec ?s) (partial ?s) (final ?s) =
      send io (websocket ?s)
        (json_dumps [(''text'', Some (flush_text_spec (partial ?s) (final ?s)))])"
    using ne by (rule end_of_stream_text)
  have loop: "main_message_loop io ws r (messages @ [Binary []]) = loop_body io ?s (Binary [])"
    by (simp add: main_message_loop_def message_loop_append)
  show ?thesis
    by (simp add: process_end_of_stream eos loop loop_body_end_of_stream_websocket)
qed

theorem flush_fallback_order_witness:
  \<open>websocket (main_message_loop (scripted refuses_nothing) []
     [Interim [(''partial'', Some ''hello'')], Boundary [(''text'', Some ''hello world'')]]
     ([Binary [1], Binary [2]] @ [Binary []]))
   = [''{"text": "hello world"}'']\<close>
  using flush_fallback_order [where io = "scripted refuses_nothing" and ws = "[]"
      and r = "[Interim [(''partial'', Some ''hello'')],
                Boundary [(''text'', Some ''hello world'')]]"
      and messages = "[Binary [1], Binary [2]]"]
  by (simp only: scripted_scenario)
     (simp add: flush_text_spec_def scripted_def recording_send_def refuses_nothing_def
      dumps_hello_world)

text \<open>
  C2: when \<^verbatim>\<open>process_audio_chunk\<close> returns from a zero-length frame, the pair it returns is
  \<^verbatim>\<open>(None, None)\<close>, whatever the state was; a second zero-length frame right after it
  calls \<^verbatim>\<open>send\<close> once, with the event \<^verbatim>\<open>{"text": ""}\<close>.
\<close>

theorem reset_after_flush:
  \<open>process_audio_chunk io ws r (Binary []) p f = ((ws', r'), Inr (p', f')) \<Longrightarrow>
   p' = None \<and> f' = None \<and>
   process_audio_chunk io ws' r' (Binary []) p' f' =
     (case send io ws' ''{"text": ""}'' of
        (ws'', Inl e) \<Rightarrow> ((ws'', r'), Inl e)
      | (ws'', Inr u) \<Rightarrow> ((ws'', r'), Inr (None, None)))\<close>
  by (auto simp: process_end_of_stream handle_end_of_stream_def truthy_def dumps_empty_text
      split: prod.splits sum.splits)

theorem reset_after_flush_witness:
  \<open>process_audio_chunk (scripted refuses_nothing) [] [] (Binary []) (Some ''hel'') None
     = (([''{"text": "hel"}''], []), Inr (None, None)) \<and>
   process_audio_chunk (scripted refuses_nothing) [''{"text": "hel"}''] [] (Binary []) None None
     = (([''{"text": "hel"}'', ''{"text": ""}''], []), Inr (None, None))\<close>
  using reset_after_flush [OF scripted_flush_hel] scripted_flush_hel
  by (simp add: scripted_def recording_send_def refuses_nothing_def)

section \<open>What is sent, and when\<close>

lemma process_chunk_keeps_websocket:
  "len message \<noteq> 0 \<Longrightarrow> fst (fst (process_audio_chunk io ws r message p f)) = ws"
  by (simp add: process_audio_chunk_def Let_def split: prod.splits sum.splits bool.splits)

lemma process_end_one_send:
  assumes "len message = 0"
  shows "\<exists>t. fst (fst (process_audio_chunk io ws r message p f)) =
               fst (send io ws (json_dumps [(''text'', Some t)]))"
proof -
  obtain t where t:
    "handle_end_of_stream io ws r p f = send io ws (json_dumps [(''text'', Some t)])"
    using end_of_stream_one_send [of io ws r p f] by blast
  have "fst (fst (process_audio_chunk io ws r message p f)) =
          fst (handle_end_of_stream io ws r p f)"
    using assms by (simp add: process_audio_chunk_def split: prod.splits sum.splits)
  with t show ?thesis by auto
qed

text \<open>
  C3: a frame that is not empty leaves the connection as it was, so nothing is sent
  for it; on a zero-length frame the connection is the one that a single \<^verbatim>\<open>send\<close> of one
  event leaves, and a connection that records what it delivers and refuses nothing has
  recorded exactly one more event.
\<close>

theorem only_end_of_stream_sends:
  "(len message \<noteq> 0 \<longrightarrow> fst (fst (process_audio_chunk io ws r message p f)) = ws) \<and>
   (len message = 0 \<longrightarrow>
      (\<exists>t. fst (fst (process_audio_chunk io ws r message p f)) =
             fst (send io ws (json_dumps [(''text'', Some t)])))) \<and>
   (len message = 0 \<longrightarrow>
      (\<exists>t. fst (fst (process_audio_chunk (io\<lparr>send := recording_send refuses_nothing\<rparr>)
               sent r message p f)) = sent @ [json_dumps [(''text'', Some t)]]))"
proof -
  have "len message = 0 \<Longrightarrow>
      \<exists>t. fst (fst (process_audio_chunk (io\<lparr>send := recording_send refuses_nothing\<rparr>)
               sent r message p f)) = sent @ [json_dumps [(''text'', Some t)]]"
    using process_end_one_send
      [of message "io\<lparr>send := recording_send refuses_nothing\<rparr>" sent r p f]
    by (simp add: recording_send_def refuses_nothing_def)
  with process_chunk_keeps_websocket [of message io ws r p f]
    process_end_one_send [of message io ws r p f]
  show ?thesis by blast
qed

theorem only_end_of_stream_sends_witness:
  \<open>len (Binary [1]) \<noteq> 0 \<and>
   fst (fst (process_audio_chunk (scripted refuses_nothing) []
     [Interim [(''partial'', Some ''hel'')]] (Binary [1]) None None)) = [] \<and>
   len (Binary []) = 0 \<and>
   (\<exists>t. fst (fst (process_audio_chunk (scripted refuses_nothing) [] []
     (Binary []) (Some ''hel'') None)) =
     fst (send (scripted refuses_nothing) [] (json_dumps [(''text'', Some t)])))\<close>
  using only_end_of_stream_sends [where message = "Binary [1]"
      and io = "scripted refuses_nothing" and ws = "[]"
      and r = "[Interim [(''partial'', Some ''hel'')]]" and p = None and f = None]
    only_end_of_stream_sends [where message = "Binary []"
      and io = "scripted refuses_nothing" and ws = "[]"
      and r = "[]" and p = "Some ''hel''" and f = None]
  by (simp add: len_def)

section \<open>Errors stay inside one turn of the loop\<close>

lemma loop_body_raised:
  "snd (process_audio_chunk io (websocket s) (rec s) message (partial s) (final s)) = Inl e \<Longrightarrow>
   partial (loop_body io s message) = partial s \<and> final (loop_body io s message) = final s"
  by (auto simp: loop_body_def split: prod.splits sum.splits)

lemma loop_body_raised_state:
  "snd (process_audio_chunk io (websocket s) (rec s) message (partial s) (final s)) = Inl e \<Longrightarrow>
   \<exists>ws' r'. loop_body io s message = s\<lparr>websocket := ws', rec := r'\<rparr>"
proof (cases "validate_message message")
  case False
  then have "loop_body io s message = s\<lparr>websocket := websocket s, rec := rec s\<rparr>"
    by (simp add: loop_body_def)
  then show ?thesis by blast
next
  case True
  assume "snd (process_audio_chunk io (websocket s) (rec s) message (partial s) (final s)) = Inl e"
  with True show ?thesis
    by (auto simp: loop_body_def split: prod.splits sum.splits)
qed

text \<open>A failure of the recognizer on a chunk is such an error.\<close>

lemma recognizer_failure_raises:
  "len message \<noteq> 0 \<Longrightarrow> snd (accept_waveform io r message) = Inl e \<Longrightarrow>
   snd (process_audio_chunk io ws r message p f) = Inl e"
  by (auto simp: process_audio_chunk_def split: prod.splits sum.splits)

text \<open>
  C4: when processing a message raises an error, the turn of the loop ends with
  \<^verbatim>\<open>partial\<close> and \<^verbatim>\<open>final\<close> as they were, and the loop goes on with the messages that
  follow, from a state that differs from the one before at most in the connection and
  the recognizer. (\<^verbatim>\<open>validate_message\<close> is a test that raises nothing.)
\<close>

theorem error_isolated:
  "snd (process_audio_chunk io (websocket s) (rec s) message (partial s) (final s)) = Inl e \<Longrightarrow>
   partial (loop_body io s message) = partial s \<and>
   final (loop_body io s message) = final s \<and>
   (\<exists>ws' r'. message_loop io s (message # messages) =
              message_loop io (s\<lparr>websocket := ws', rec := r'\<rparr>) messages)"
proof -
  assume raised:
    "snd (process_audio_chunk io (websocket s) (rec s) message (partial s) (final s)) = Inl e"
  obtain ws' r' where "loop_body io s message = s\<lparr>websocket := ws', rec := r'\<rparr>"
    using loop_body_raised_state [OF raised] by blast
  then have "message_loop io s (message # messages) =
      message_loop io (s\<lparr>websocket := ws', rec := r'\<rparr>) messages"
    by simp
  then have "\<exists>ws' r'. message_loop io s (message # messages) =
      message_loop io (s\<lparr>websocket := ws', rec := r'\<rparr>) messages"
    by blast
  with loop_body_raised [OF raised] show ?thesis by simp
qed

theorem error_isolated_witness:
  \<open>snd (process_audio_chunk (scripted refuses_nothing) [] [Failure (Exception ''decode'')]
      (Binary [1]) (Some ''hel'') None) = Inl (Exception ''decode'') \<and>
   partial (loop_body (scripted refuses_nothing)
      \<lparr>websocket = [], rec = [Failure (Exception ''decode'')],
        partial = Some ''hel'', final = None\<rparr> (Binary [1])) = Some ''hel'' \<and>
   final (loop_body (scripted refuses_nothing)
      \<lparr>websocket = [], rec = [Failure (Exception ''decode'')],
        partial = Some ''hel'', final = None\<rparr> (Binary [1])) = None \<and>
   websocket (message_loop (scripted refuses_nothing)
      \<lparr>websocket = [], rec = [Failure (Exception ''decode'')],
        partial = Some ''hel'', final = None\<rparr> [Binary [1], Binary []])
     = [''{"text": "hel"}'']\<close>
proof -
  let ?s = "\<lparr>websocket = [], rec = [Failure (Exception ''decode'')],
        partial = Some ''hel'', final = None\<rparr>"
  have raised: "snd (process_audio_chunk (scripted refuses_nothing) (websocket ?s) (rec ?s)
      (Binary [1]) (partial ?s) (final ?s)) = Inl (Exception ''decode'')"
    by (simp add: recognizer_failure_raises len_def scripted_def scripted_accept_waveform_def)
  have body: "loop_body (scripted refuses_nothing) ?s (Binary [1]) =
      \<lparr>websocket = [], rec = [], partial = Some ''hel'', final = None\<rparr>"
    by (simp add: loop_body_def validate_message_def process_audio_chunk_def len_def
        scripted_def scripted_accept_waveform_def)
  have flush: \<open>loop_body (scripted refuses_nothing)
      \<lparr>websocket = [], rec = [], partial = Some ''hel'', final = None\<rparr> (Binary []) =
      \<lparr>websocket = [''{"text": "hel"}''], rec = [], partial = None, final = None\<rparr>\<close>
    using scripted_flush_hel by (simp add: loop_body_def validate_message_def)
  from error_isolated [OF raised, of "[Binary []]"] raised body flush
  show ?thesis by simp
qed

section \<open>A failed flush\<close>

text \<open>
  C8: when the \<^verbatim>\<open>send\<close> of the flush event raises, the turn of the loop for the zero-length
  frame changes nothing but the connection: \<^verbatim>\<open>partial\<close> and \<^verbatim>\<open>final\<close> are not reset, and the
  next message is processed with the values they had before the failed flush.
\<close>

theorem failed_flush_keeps_state:
  "snd (handle_end_of_stream io (websocket s) (rec s) (partial s) (final s)) = Inl e \<Longrightarrow>
   partial (loop_body io s (Binary [])) = partial s \<and>
   final (loop_body io s (Binary [])) = final s \<and>
   loop_body io s (Binary []) =
     s\<lparr>websocket := fst (handle_end_of_stream io (websocket s) (rec s) (partial s) (final s))\<rparr>"
  by (auto simp: loop_body_def validate_message_def process_end_of_stream
      split: prod.splits sum.splits)

theorem failed_flush_keeps_state_witness:
  \<open>snd (handle_end_of_stream (scripted refuses_all) [] [] (Some ''hel'') (Some ''hello''))
     = Inl (Exception ''ConnectionClosed'') \<and>
   loop_body (scripted refuses_all)
     \<lparr>websocket = [], rec = [], partial = Some ''hel'', final = Some ''hello''\<rparr> (Binary [])
     = \<lparr>websocket = [], rec = [], partial = Some ''hel'', final = Some ''hello''\<rparr>\<close>
proof -
  let ?s = "\<lparr>websocket = [], rec = [], partial = Some ''hel'', final = Some ''hello''\<rparr>"
  have raised: "snd (handle_end_of_stream (scripted refuses_all) (websocket ?s) (rec ?s)
      (partial ?s) (final ?s)) = Inl (Exception ''ConnectionClosed'')"
    by (simp add: handle_end_of_stream_def truthy_def scripted_def recording_send_def
        refuses_all_def)
  have left: "fst (handle_end_of_stream (scripted refuses_all) [] [] (Some ''hel'')
      (Some ''hello'')) = []"
    by (simp add: handle_end_of_stream_def truthy_def scripted_def recording_send_def
        refuses_all_def)
  from failed_flush_keeps_state [OF raised] raised left show ?thesis by simp
qed

section \<open>The tracking variables on an audio frame\<close>

lemma boundary_update:
  "len message \<noteq> 0 \<Longrightarrow> accept_waveform io r message = (r', Inr True) \<Longrightarrow>
   result io r' = (r'', Inr result_json) \<Longrightarrow>
   dict_get result_json ''text'' (Some '''') = Some t \<Longrightarrow>
   snd (process_audio_chunk io ws r message p f) = Inr (p, if t = [] then f else Some t)"
  by (simp add: process_audio_chunk_def truthy_def)

lemma interim_update:
  "len message \<noteq> 0 \<Longrightarrow> accept_waveform io r message = (r', Inr False) \<Longrightarrow>
   partial_result io r' = (r'', Inr partial_json) \<Longrightarrow>
   dict_get partial_json ''partial'' (Some '''') = Some t \<Longrightarrow>
   snd (process_audio_chunk io ws r message p f) = Inr (if t = [] then p else Some t, f)"
  by (simp add: process_audio_chunk_def truthy_def)

text \<open>
  C6: on a frame that is not empty, when the recognizer reports a completed utterance
  with the result text \<open>t\<close>, \<^verbatim>\<open>final\<close> is unchanged if \<open>t\<close> is empty and becomes \<open>t\<close>
  otherwise, and \<^verbatim>\<open>partial\<close> is returned as it was; when the recognizer reports no
  boundary and the interim text is \<open>t\<close>, \<^verbatim>\<open>partial\<close> is unchanged if \<open>t\<close> is empty and
  becomes \<open>t\<close> otherwise, and \<^verbatim>\<open>final\<close> is returned as it was.
\<close>

theorem tracking_update:
  "len message \<noteq> 0 \<Longrightarrow>
   (accept_waveform io r message = (r', Inr True) \<and> result io r' = (r'', Inr d) \<and>
      dict_get d ''text'' (Some '''') = Some t \<longrightarrow>
      snd (process_audio_chunk io ws r message p f) = Inr (p, if t = [] then f else Some t)) \<and>
   (accept_waveform io r message = (r', Inr False) \<and> partial_result io r' = (r'', Inr d) \<and>
      dict_get d ''partial'' (Some '''') = Some t \<longrightarrow>
      snd (process_audio_chunk io ws r message p f) = Inr (if t = [] then p else Some t, f))"
  using boundary_update [of message io r r' r'' d t ws p f]
    interim_update [of message io r r' r'' d t ws p f]
  by blast

theorem tracking_update_witness:
  \<open>len (Binary [1]) \<noteq> 0 \<and>
   accept_waveform (scripted refuses_nothing) [Boundary [(''text'', Some ''hello world'')]]
     (Binary [1]) = ([Boundary [(''text'', Some ''hello world'')]], Inr True) \<and>
   result (scripted refuses_nothing) [Boundary [(''text'', Some ''hello world'')]]
     = ([], Inr [(''text'', Some ''hello world'')]) \<and>
   dict_get [(''text'', Some ''hello world'')] ''text'' (Some '''') = Some ''hello world'' \<and>
   snd (process_audio_chunk (scripted refuses_nothing) []
     [Boundary [(''text'', Some ''hello world'')]] (Binary [1]) (Some ''hello'') None)
     = Inr (Some ''hello'', Some ''hello world'') \<and>
   accept_waveform (scripted refuses_nothing) [Interim [(''partial'', Some '''')]]
     (Binary [1]) = ([Interim [(''partial'', Some '''')]], Inr False) \<and>
   partial_result (scripted refuses_nothing) [Interim [(''partial'', Some '''')]]
     = ([], Inr [(''partial'', Some '''')]) \<and>
   dict_get [(''partial'', Some '''')] ''partial'' (Some '''') = Some '''' \<and>
   snd (process_audio_chunk (scripted refuses_nothing) []
     [Interim [(''partial'', Some '''')]] (Binary [1]) (Some ''hel'') None)
     = Inr (Some ''hel'', None)\<close>
proof -
  have n: "len (Binary [1]) \<noteq> 0" by (simp add: len_def)
  have a1: "accept_waveform (scripted refuses_nothing)
      [Boundary [(''text'', Some ''hello world'')]] (Binary [1])
      = ([Boundary [(''text'', Some ''hello world'')]], Inr True)"
    by (simp add: scripted_def scripted_accept_waveform_def)
  have r1: "result (scripted refuses_nothing) [Boundary [(''text'', Some ''hello world'')]]
      = ([], Inr [(''text'', Some ''hello world'')])"
    by (simp add: scripted_def scripted_result_def)
  have g1: "dict_get [(''text'', Some ''hello world'')] ''text'' (Some '''')
      = Some ''hello world''"
    by (simp add: dict_get_def)
  have a2: "accept_waveform (scripted refuses_nothing)
      [Interim [(''partial'', Some '''')]] (Binary [1])
      = ([Interim [(''partial'', Some '''')]], Inr False)"
    by (simp add: scripted_def scripted_accept_waveform_def)
  have r2: "partial_result (scripted refuses_nothing) [Interim [(''partial'', Some '''')]]
      = ([], Inr [(''partial'', Some '''')])"
    by (simp add: scripted_def scripted_partial_result_def)
  have g2: "dict_get [(''partial'', Some '''')] ''partial'' (Some '''') = Some ''''"
    by (simp add: dict_get_def)
  from tracking_update [OF n, where io = "scripted refuses_nothing"
      and r = "[Boundary [(''text'', Some ''hello world'')]]"
      and r' = "[Boundary [(''text'', Some ''hello world'')]]" and r'' = "[]"
      and d = "[(''text'', Some ''hello world'')]" and t = "''hello world''"
      and ws = "[]" and p = "Some ''hello''" and f = None]
    tracking_update [OF n, where io = "scripted refuses_nothing"
      and r = "[Interim [(''partial'', Some '''')]]"
      and r' = "[Interim [(''partial'', Some '''')]]" and r'' = "[]"
      and d = "[(''partial'', Some '''')]" and t = "''''"
      and ws = "[]" and p = "Some ''hel''" and f = None]
    n a1 r1 g1 a2 r2 g2
  show ?thesis by simp
qed

lemma boundary_chunk_keeps_partial:
  "len message \<noteq> 0 \<Longrightarrow> snd (accept_waveform io r message) = Inr True \<Longrightarrow>
   process_audio_chunk io ws r message p f = (env, Inr (p', f')) \<Longrightarrow> p' = p"
  by (auto simp: process_audio_chunk_def Let_def split: prod.splits sum.splits)

lemma chunk_keeps_set:
  "len message \<noteq> 0 \<Longrightarrow> process_audio_chunk io ws r message p f = (env, Inr (p', f')) \<Longrightarrow>
   (p \<noteq> None \<longrightarrow> p' \<noteq> None) \<and> (f \<noteq> None \<longrightarrow> f' \<noteq> None)"
  by (auto simp: process_audio_chunk_def Let_def truthy_def
      split: prod.splits sum.splits bool.splits if_splits option.splits)

text \<open>A frame that is not empty never clears a tracking variable.\<close>

lemma loop_body_keeps_set:
  assumes n: "len message \<noteq> 0"
  shows "(partial s \<noteq> None \<longrightarrow> partial (loop_body io s message) \<noteq> None) \<and>
         (final s \<noteq> None \<longrightarrow> final (loop_body io s message) \<noteq> None)"
proof (cases "validate_message message")
  case False
  then show ?thesis by (simp add: loop_body_def)
next
  case True
  obtain env res where pac:
    "process_audio_chunk io (websocket s) (rec s) message (partial s) (final s) = (env, res)"
    by (cases "process_audio_chunk io (websocket s) (rec s) message (partial s) (final s)")
  show ?thesis
  proof (cases res)
    case (Inl e)
    with pac have "snd (process_audio_chunk io (websocket s) (rec s) message
        (partial s) (final s)) = Inl e" by simp
    from loop_body_raised [OF this] show ?thesis by simp
  next
    case (Inr pf)
    obtain p' f' where pf: "pf = (p', f')" by (cases pf)
    from chunk_keeps_set [OF n pac [unfolded Inr pf]]
    have keep: "(partial s \<noteq> None \<longrightarrow> p' \<noteq> None) \<and> (final s \<noteq> None \<longrightarrow> f' \<noteq> None)" .
    have "partial (loop_body io s message) = p' \<and> final (loop_body io s message) = f'"
      using pac Inr pf True by (cases env) (simp add: loop_body_def)
    with keep show ?thesis by simp
  qed
qed

lemma loop_body_boundary_partial:
  assumes n: "len message \<noteq> 0"
    and a: "snd (accept_waveform io (rec s) message) = Inr True"
  shows "partial (loop_body io s message) = partial s"
proof (cases "validate_message message")
  case False
  then show ?thesis by (simp add: loop_body_def)
next
  case True
  obtain env res where pac:
    "process_audio_chunk io (websocket s) (rec s) message (partial s) (final s) = (env, res)"
    by (cases "process_audio_chunk io (websocket s) (rec s) message (partial s) (final s)")
  show ?thesis
  proof (cases res)
    case (Inl e)
    with pac have "snd (process_audio_chunk io (websocket s) (rec s) message
        (partial s) (final s)) = Inl e" by simp
    from loop_body_raised [OF this] show ?thesis by simp
  next
    case (Inr pf)
    obtain p' f' where pf: "pf = (p', f')" by (cases pf)
    from boundary_chunk_keeps_partial [OF n a pac [unfolded Inr pf]]
    have "p' = partial s" .
    with pac Inr pf True show ?thesis
      by (cases env) (simp add: loop_body_def)
  qed
qed

text \<open>
  C9: on a frame that is not empty and on which the recognizer reports a completed
  utterance, \<^verbatim>\<open>partial\<close> after the turn of the loop is \<^verbatim>\<open>partial\<close> before it; and no frame
  that is not empty turns a \<^verbatim>\<open>partial\<close> that is set into \<^verbatim>\<open>None\<close>, so only the flush of a
  zero-length frame clears it.
\<close>

theorem boundary_keeps_partial:
  "len message \<noteq> 0 \<Longrightarrow>
   (snd (accept_waveform io (rec s) message) = Inr True \<longrightarrow>
      partial (loop_body io s message) = partial s) \<and>
   (partial s \<noteq> None \<longrightarrow> partial (loop_body io s message) \<noteq> None)"
  using loop_body_boundary_partial [of message io s] loop_body_keeps_set [of message s io]
  by blast

theorem boundary_keeps_partial_witness:
  \<open>len (Binary [1]) \<noteq> 0 \<and>
   snd (accept_waveform (scripted refuses_nothing)
     [Boundary [(''text'', Some ''hello world'')]] (Binary [1])) = Inr True \<and>
   loop_body (scripted refuses_nothing)
     \<lparr>websocket = [], rec = [Boundary [(''text'', Some ''hello world'')]],
       partial = Some ''hello'', final = None\<rparr> (Binary [1])
     = \<lparr>websocket = [], rec = [], partial = Some ''hello'', final = Some ''hello world''\<rparr>\<close>
proof -
  let ?s = "\<lparr>websocket = [], rec = [Boundary [(''text'', Some ''hello world'')]],
       partial = Some ''hello'', final = None\<rparr>"
  have n: "len (Binary [1]) \<noteq> 0" by (simp add: len_def)
  have a: "snd (accept_waveform (scripted refuses_nothing) (rec ?s) (Binary [1])) = Inr True"
    by (simp add: scripted_def scripted_accept_waveform_def)
  have body: "loop_body (scripted refuses_nothing) ?s (Binary [1])
     = \<lparr>websocket = [], rec = [], partial = Some ''hello'', final = Some ''hello world''\<rparr>"
    by (simp add: loop_body_def validate_message_def process_audio_chunk_def len_def
        scripted_def scripted_accept_waveform_def scripted_result_def dict_get_def truthy_def)
  from boundary_keeps_partial [OF n, of "scripted refuses_nothing" ?s] n a body
  show ?thesis by simp
qed

section \<open>The wire format\<close>

lemma recording_end_of_stream:
  assumes a: "send io = recording_send refuses"
  shows "\<exists>ts. fst (handle_end_of_stream io sent r p f) = sent @ map text_event ts"
proof -
  obtain t where t:
    "handle_end_of_stream io sent r p f = send io sent (json_dumps [(''text'', Some t)])"
    using end_of_stream_one_send [of io sent r p f] by blast
  show ?thesis
  proof (cases "refuses sent (json_dumps [(''text'', Some t)])")
    case True
    with a t have "fst (handle_end_of_stream io sent r p f) = sent @ map text_event []"
      by (simp add: recording_send_def)
    then show ?thesis by blast
  next
    case False
    with a t have "fst (handle_end_of_stream io sent r p f) = sent @ map text_event [t]"
      by (simp add: recording_send_def text_event_def)
    then show ?thesis by blast
  qed
qed

lemma recording_chunk:
  assumes "send io = recording_send refuses"
  shows "\<exists>ts. fst (fst (process_audio_chunk io sent r message p f)) = sent @ map text_event ts"
proof (cases "len message = 0")
  case True
  then have "fst (fst (process_audio_chunk io sent r message p f)) =
          fst (handle_end_of_stream io sent r p f)"
    by (simp add: process_audio_chunk_def split: prod.splits sum.splits)
  with recording_end_of_stream [OF assms, of sent r p f] show ?thesis by simp
next
  case False
  then have "fst (fst (process_audio_chunk io sent r message p f)) = sent @ map text_event []"
    by (simp add: process_chunk_keeps_websocket)
  then show ?thesis by blast
qed

lemma loop_body_websocket:
  "websocket (loop_body io s message) =
     (if validate_message message
      then fst (fst (process_audio_chunk io (websocket s) (rec s) message (partial s) (final s)))
      else websocket s)"
  by (auto simp: loop_body_def split: prod.splits sum.splits)

lemma recording_loop_body:
  assumes "send io = recording_send refuses"
  shows "\<exists>ts. websocket (loop_body io s message) = websocket s @ map text_event ts"
proof (cases "validate_message message")
  case True
  with recording_chunk [OF assms, of "websocket s" "rec s" message "partial s" "final s"]
  show ?thesis by (simp add: loop_body_websocket)
next
  case False
  then have "websocket (loop_body io s message) = websocket s @ map text_event []"
    by (simp add: loop_body_websocket)
  then show ?thesis by blast
qed

lemma recording_message_loop:
  assumes "send io = recording_send refuses"
  shows "\<exists>ts. websocket (message_loop io s messages) = websocket s @ map text_event ts"
proof (induction messages arbitrary: s)
  case Nil
  have "websocket (message_loop io s []) = websocket s @ map text_event []" by simp
  then show ?case by blast
next
  case (Cons m ms)
  obtain ts where ts: "websocket (loop_body io s m) = websocket s @ map text_event ts"
    using recording_loop_body [OF assms, of s m] by blast
  obtain us where us: "websocket (message_loop io (loop_body io s m) ms) =
      websocket (loop_body io s m) @ map text_event us"
    using Cons.IH [of "loop_body io s m"] by blast
  from ts us
  have "websocket (message_loop io s (m # ms)) = websocket s @ map text_event (ts @ us)"
    by simp
  then show ?case by blast
qed

text \<open>
  C7: on a connection that records what it delivers, whatever it refuses and whatever
  the recognizer answers, everything sent during \<^verbatim>\<open>main_message_loop\<close> is the serialisation
  of a JSON object with the single key \<^verbatim>\<open>text\<close> and a string as its value: the text
  \<^verbatim>\<open>{"text": \<close>, the string in JSON quotes, and \<^verbatim>\<open>}\<close>.
\<close>

theorem events_wire_format:
  \<open>(\<exists>ts. websocket (main_message_loop (io\<lparr>send := recording_send refuses\<rparr>) [] r messages)
           = map (\<lambda>t. json_dumps [(''text'', Some t)]) ts) \<and>
   json_dumps [(''text'', Some t)] = ''{"text": '' @ encode_string t @ ''}''\<close>
proof -
  have "send (io\<lparr>send := recording_send refuses\<rparr>) = recording_send refuses" by simp
  from recording_message_loop [OF this,
      of "\<lparr>websocket = [], rec = r, partial = None, final = None\<rparr>" messages]
  have "\<exists>ts. websocket (main_message_loop (io\<lparr>send := recording_send refuses\<rparr>) [] r messages)
           = map text_event ts"
    by (simp add: main_message_loop_def)
  moreover have "text_event = (\<lambda>t. json_dumps [(''text'', Some t)])"
    by (rule ext) (simp add: text_event_def)
  ultimately show ?thesis by (simp add: dumps_text)
qed

section \<open>Only empty bytes flush\<close>

lemma loop_body_sends_only_on_empty_bytes:
  "websocket (loop_body io s message) \<noteq> websocket s \<Longrightarrow> message = Binary []"
proof (cases message)
  case (Text t)
  assume "websocket (loop_body io s message) \<noteq> websocket s"
  with Text show ?thesis by (simp add: loop_body_text)
next
  case (Binary b)
  assume changed: "websocket (loop_body io s message) \<noteq> websocket s"
  have "b = []"
  proof (rule ccontr)
    assume "b \<noteq> []"
    then have "len message \<noteq> 0" using Binary by (simp add: len_def)
    from process_chunk_keeps_websocket
      [OF this, of io "websocket s" "rec s" "partial s" "final s"]
    have "websocket (loop_body io s message) = websocket s"
      by (simp add: loop_body_websocket)
    with changed show False by simp
  qed
  with Binary show ?thesis by simp
qed

lemma loop_body_resets_only_on_empty_bytes:
  assumes "(partial s \<noteq> None \<and> partial (loop_body io s message) = None) \<or>
           (final s \<noteq> None \<and> final (loop_body io s message) = None)"
  shows "message = Binary []"
proof (cases message)
  case (Text t)
  with assms show ?thesis by (auto simp: loop_body_text)
next
  case (Binary b)
  have "b = []"
  proof (rule ccontr)
    assume "b \<noteq> []"
    then have "len message \<noteq> 0" using Binary by (simp add: len_def)
    from loop_body_keeps_set [OF this, of s io] assms show False by auto
  qed
  with Binary show ?thesis by simp
qed

text \<open>
  C10: an empty text message has length zero, and \<^verbatim>\<open>process_audio_chunk\<close> would treat it
  as it treats empty bytes; but \<^verbatim>\<open>validate_message\<close> rejects it first, so the turn of the
  loop leaves every variable as it was. A turn of the loop that changes the connection,
  or turns a \<^verbatim>\<open>partial\<close> or \<^verbatim>\<open>final\<close> that is set into \<^verbatim>\<open>None\<close>, is a turn on the zero-length
  byte sequence.
\<close>

theorem only_empty_bytes_flush:
  "loop_body io s (Text '''') = s \<and>
   process_audio_chunk io ws r (Text '''') p f = process_audio_chunk io ws r (Binary []) p f \<and>
   (websocket (loop_body io s message) \<noteq> websocket s \<or>
    (partial s \<noteq> None \<and> partial (loop_body io s message) = None) \<or>
    (final s \<noteq> None \<and> final (loop_body io s message) = None)
      \<longrightarrow> message = Binary [])"
  using loop_body_sends_only_on_empty_bytes [of io s message]
    loop_body_resets_only_on_empty_bytes [of s io message]
  by (auto simp: loop_body_text process_audio_chunk_def len_def)

theorem only_empty_bytes_flush_witness:
  \<open>websocket (loop_body (scripted refuses_nothing)
     \<lparr>websocket = [], rec = [], partial = Some ''hel'', final = None\<rparr> (Binary []))
     \<noteq> websocket \<lparr>websocket = [], rec = [], partial = Some ''hel'', final = None\<rparr> \<and>
   loop_body (scripted refuses_nothing)
     \<lparr>websocket = [], rec = [], partial = Some ''hel'', final = None\<rparr> (Text '''')
     = \<lparr>websocket = [], rec = [], partial = Some ''hel'', final = None\<rparr>\<close>
proof -
  let ?s = "\<lparr>websocket = [], rec = [], partial = Some ''hel'', final = None\<rparr>"
  have flush: \<open>loop_body (scripted refuses_nothing) ?s (Binary []) =
      \<lparr>websocket = [''{"text": "hel"}''], rec = [], partial = None, final = None\<rparr>\<close>
    using scripted_flush_hel by (simp add: loop_body_def validate_message_def)
  from only_empty_bytes_flush [where io = "scripted refuses_nothing" and s = ?s
      and message = "Binary []"] flush
  show ?thesis by simp
qed

end
